theory Spec2Isabelle
  imports Complex_Main "HOL-Library.List_Lexorder" "HOL-Library.Multiset"
begin

section \<open>Shared data model\<close>

text \<open>
  A Python \<open>str\<close> is a sequence of Unicode code points, compared code point by code
  point; it is modelled as a list of code points, ordered lexicographically.
\<close>

type_synonym pystr = "nat list"

text \<open>The two literals of \<open>draw.py\<close> that decide the roster section of a record.\<close>

definition str_online :: pystr where
  "str_online = [0x5728, 0x7EBF]"

definition str_away :: pystr where
  "str_away = [0x79BB, 0x5F00]"

datatype py_error = ZeroDivisionError | ValueError | IndexError | OverflowError

text \<open>A colour is a Python tuple of channel values.\<close>

type_synonym colour = "int list"

datatype mode = RGB | RGBA

record image =
  imode :: mode
  iwidth :: int
  iheight :: int
  ipixel :: "int \<Rightarrow> int \<Rightarrow> colour"

text \<open>\<open>Image.new(mode, size, colour)\<close>: every pixel has the given colour.\<close>

definition Image_new :: "mode \<Rightarrow> int \<times> int \<Rightarrow> colour \<Rightarrow> image" where
  "Image_new m sz c = \<lparr>imode = m, iwidth = fst sz, iheight = snd sz, ipixel = (\<lambda>x y. c)\<rparr>"

definition isize :: "image \<Rightarrow> int \<times> int" where
  "isize im = (iwidth im, iheight im)"

section \<open>Roster layout engine (\<open>draw_friends_status\<close>)\<close>

definition MEMBER_AVATAR_SIZE :: int where
  "MEMBER_AVATAR_SIZE = 50"

text \<open>The dictionary that \<open>simplize_steam_player_data\<close> builds, with the nickname added.\<close>

record person =
  steamid :: pystr
  avatar :: image
  name :: pystr
  status :: pystr
  personastate :: int
  nickname :: "pystr option"

text \<open>
  The status text \<open>simplize_steam_player_data\<close> gives a player who is in no game:
  the generic label of the persona state.
\<close>

definition generic_label :: "int \<Rightarrow> pystr" where
  "generic_label ps = (if ps = 3 then str_away else str_online)"

text \<open>The three list comprehensions of \<open>draw_friends_status\<close>.\<close>

definition is_gaming :: "person \<Rightarrow> bool" where
  "is_gaming d =
     ((personastate d = 1 \<and> status d \<noteq> str_online)
      \<or> (personastate d = 3 \<and> status d \<noteq> str_away)
      \<or> (personastate d = 4 \<and> status d \<noteq> str_online))"

definition is_online :: "person \<Rightarrow> bool" where
  "is_online d =
     ((personastate d = 1 \<and> status d = str_online)
      \<or> (personastate d = 3 \<and> status d = str_away)
      \<or> (personastate d = 4 \<and> status d = str_online)
      \<or> personastate d \<in> set [2, 5, 6])"

definition is_offline :: "person \<Rightarrow> bool" where
  "is_offline d = (personastate d = 0)"

text \<open>The key of \<open>online_data.sort\<close>.\<close>

definition online_key :: "person \<Rightarrow> int" where
  "online_key x = (if personastate x = 3 then 7 else personastate x)"

datatype section_kind = Gaming | Online | Offline

text \<open>
  A section image: its rows are the member images (\<open>draw_friend_status\<close> draws one
  record on a canvas 64 high and makes no layout decision), each pasted at its vertical
  offset, and its height is that of the canvas the section function creates.
\<close>

record section_image =
  kind :: section_kind
  member_rows :: "(int \<times> person) list"
  sheight :: int

definition section_height :: "person list \<Rightarrow> int" where
  "section_height data = 64 + (MEMBER_AVATAR_SIZE + 16) * int (length data) + 16"

definition section_rows :: "person list \<Rightarrow> (int \<times> person) list" where
  "section_rows data =
     map (\<lambda>(i, d). (64 + (MEMBER_AVATAR_SIZE + 16) * int i, d)) (enumerate 0 data)"

text \<open>
  \<open>draw_gaming_friends_status\<close> sorts its argument in place (\<open>list.sort\<close> is stable, as
  \<open>sort_key\<close> is); the list after the call is returned with the image.
\<close>

definition draw_gaming_friends_status :: "person list \<Rightarrow> person list \<times> section_image" where
  "draw_gaming_friends_status data =
     (let data' = sort_key status data
      in (data', \<lparr>kind = Gaming, member_rows = section_rows data', sheight = section_height data'\<rparr>))"

definition draw_online_friends_status :: "person list \<Rightarrow> section_image" where
  "draw_online_friends_status data =
     \<lparr>kind = Online, member_rows = section_rows data, sheight = section_height data\<rparr>"

definition draw_offline_friends_status :: "person list \<Rightarrow> section_image" where
  "draw_offline_friends_status data =
     \<lparr>kind = Offline, member_rows = section_rows data, sheight = section_height data\<rparr>"

text \<open>Heights of the header block and of the search bar (\<open>resize((WIDTH, 120))\<close>, 50).\<close>

definition parent_status_height :: int where
  "parent_status_height = 120"

definition friends_search_height :: int where
  "friends_search_height = 50"

datatype draw_op =
  PasteParent int
  | PasteSearch int
  | PasteSection section_image int
  | Separator int int

text \<open>The final loop over \<open>status_images\<close>: index, number of images, current \<open>y\<close>.\<close>

fun paste_sections :: "nat \<Rightarrow> nat \<Rightarrow> int \<Rightarrow> section_image list \<Rightarrow> draw_op list" where
  "paste_sections i n y [] = []"
| "paste_sections i n y (s # ss) =
     PasteSection s y #
       (if int i \<noteq> int n - 1 then [Separator (y + sheight s - 1) (y + sheight s)] else [])
       @ paste_sections (Suc i) n (y + sheight s) ss"

text \<open>
  Names for the three lists that \<open>draw_friends_status\<close> draws its sections from, as it
  computes them; they serve the proofs about \<open>status_images\<close> below.
\<close>

definition gaming_members :: "person list \<Rightarrow> person list" where
  "gaming_members data =
     fst (draw_gaming_friends_status (filter is_gaming (sort_key personastate data)))"

definition online_members :: "person list \<Rightarrow> person list" where
  "online_members data = sort_key online_key (filter is_online (sort_key personastate data))"

definition offline_members :: "person list \<Rightarrow> person list" where
  "offline_members data = filter is_offline (sort_key personastate data)"

definition status_images :: "person list \<Rightarrow> section_image list" where
  "status_images data =
     (let data1 = sort_key personastate data;
          gaming_data = filter is_gaming data1;
          imgs1 = (if gaming_data \<noteq> [] then [snd (draw_gaming_friends_status gaming_data)] else []);
          online_data = sort_key online_key (filter is_online data1);
          imgs2 = (if online_data \<noteq> [] then imgs1 @ [draw_online_friends_status online_data]
                   else imgs1);
          offline_data = filter is_offline data1
      in if offline_data \<noteq> [] then imgs2 @ [draw_offline_friends_status offline_data]
         else imgs2)"

record roster =
  caller_data :: "person list"
  canvas_height :: int
  ops :: "draw_op list"

text \<open>
  \<open>draw_friends_status\<close>: \<open>caller_data\<close> is the caller's list after the call (the
  function sorts it in place), \<open>canvas_height\<close> the accumulated \<open>height\<close>, \<open>ops\<close> what
  is painted on the canvas, in order.
\<close>

definition draw_friends_status :: "image \<Rightarrow> pystr \<Rightarrow> person list \<Rightarrow> roster" where
  "draw_friends_status parent_avatar parent_name data =
     (let data1 = sort_key personastate data;
          imgs = status_images data;
          height = parent_status_height + friends_search_height + sum_list (map sheight imgs)
      in \<lparr>caller_data = data1,
          canvas_height = height,
          ops = PasteParent 0 # PasteSearch parent_status_height #
                paste_sections 0 (length imgs) (parent_status_height + friends_search_height) imgs\<rparr>)"

definition sections :: "roster \<Rightarrow> section_image list" where
  "sections r = concat (map (\<lambda>op. case op of PasteSection s y \<Rightarrow> [s] | _ \<Rightarrow> []) (ops r))"



text \<open>The records drawn in the rows of the sections of one kind, from top to bottom.\<close>

definition section_members :: "section_kind \<Rightarrow> roster \<Rightarrow> person list" where
  "section_members k r =
     concat (map (\<lambda>s. map snd (member_rows s)) (filter (\<lambda>s. kind s = k) (sections r)))"

section \<open>Sample inputs\<close>

subsection \<open>A roster of three records\<close>

definition p_generic :: person where
  "p_generic = \<lparr>steamid = [49], avatar = Image_new RGB (184, 184) [0, 0, 0], name = [65],
     status = str_online, personastate = 1, nickname = None\<rparr>"

definition p_cs :: person where
  "p_cs = \<lparr>steamid = [50], avatar = Image_new RGB (184, 184) [0, 0, 0], name = [66],
     status = [67, 111, 117, 110, 116, 101, 114, 45, 83, 116, 114, 105, 107, 101],
     personastate = 1, nickname = Some [98]\<rparr>"

definition p_off :: person where
  "p_off = \<lparr>steamid = [51], avatar = Image_new RGB (184, 184) [0, 0, 0], name = [67],
     status = [0x79BB, 0x7EBF], personastate = 0, nickname = None\<rparr>"

definition roster3 :: "person list" where
  "roster3 = [p_generic, p_cs, p_off]"

subsection \<open>A roster with every kind of online member\<close>

definition p_away :: person where
  "p_away = \<lparr>steamid = [52], avatar = Image_new RGB (184, 184) [0, 0, 0], name = [68],
     status = str_away, personastate = 3, nickname = None\<rparr>"

definition p_busy :: person where
  "p_busy = \<lparr>steamid = [53], avatar = Image_new RGB (184, 184) [0, 0, 0], name = [69],
     status = str_online, personastate = 2, nickname = None\<rparr>"

definition p_snooze :: person where
  "p_snooze = \<lparr>steamid = [54], avatar = Image_new RGB (184, 184) [0, 0, 0], name = [70],
     status = str_online, personastate = 4, nickname = None\<rparr>"

definition p_apex :: person where
  "p_apex = \<lparr>steamid = [55], avatar = Image_new RGB (184, 184) [0, 0, 0], name = [71],
     status = [65, 112, 101, 120], personastate = 3, nickname = None\<rparr>"

definition roster6 :: "person list" where
  "roster6 = [p_snooze, p_away, p_cs, p_busy, p_apex, p_generic]"

section \<open>Biography wrapping (\<open>draw_player_status\<close>)\<close>

text \<open>
  The wrapping loop of \<open>draw_player_status\<close>. The font is not part of the repository:
  \<open>getlength\<close> is the measured width of one character. The arguments are the
  characters not yet read, \<open>line\<close>, \<open>line_width\<close> and \<open>offset\<close>; the result is the
  list of \<open>draw.text\<close> calls, each with its vertical position and its text. The test
  \<open>idx == len(player_description) - 1\<close> holds exactly when no character is left.
\<close>

fun bio_loop :: "(nat \<Rightarrow> rat) \<Rightarrow> pystr \<Rightarrow> pystr \<Rightarrow> rat \<Rightarrow> int \<Rightarrow> (int \<times> pystr) list" where
  "bio_loop getlength [] line line_width offset = []"
| "bio_loop getlength (char # rest) line line_width offset =
     (if line_width + getlength char > 640 \<or> rest = [] \<or> char = 10
      then (132 + offset, line @ [char]) #
             (if offset + 25 \<ge> 25 * 4 then [] else bio_loop getlength rest [] 0 (offset + 25))
      else if offset \<ge> 25 * 4 then []
      else bio_loop getlength rest (line @ [char]) (line_width + getlength char) offset)"

definition bio_lines :: "(nat \<Rightarrow> rat) \<Rightarrow> pystr \<Rightarrow> (int \<times> pystr) list" where
  "bio_lines getlength player_description = bio_loop getlength player_description [] 0 0"

text \<open>
  The wrapping rule in the words of the specification, with no limit on the number of
  lines: a line is emitted when the accumulated width exceeds 640, at a newline, and at
  the end of the input.
\<close>

fun spec_segments :: "(nat \<Rightarrow> rat) \<Rightarrow> pystr \<Rightarrow> pystr \<Rightarrow> rat \<Rightarrow> pystr list" where
  "spec_segments getlength [] line width = []"
| "spec_segments getlength (c # rest) line width =
     (if width + getlength c > 640 \<or> c = 10 \<or> rest = []
      then (line @ [c]) # spec_segments getlength rest [] 0
      else spec_segments getlength rest (line @ [c]) (width + getlength c))"

definition alphabet17 :: pystr where
  "alphabet17 = [97, 98, 99, 100, 101, 102, 103, 104, 105, 106, 107, 108, 109, 110, 111, 112, 113]"

section \<open>Python floats\<close>

text \<open>
  A Python float is an IEEE 754 double. A finite double is modelled by its value, a
  rational number, and every float operation of the code is the exact operation followed
  by \<open>fl\<close>, the rounding to the nearest double (ties to the even significand, 53 bits,
  subnormal numbers below \<open>2^-1022\<close>). A rounded result of magnitude \<open>2^1024\<close> or more
  is the float infinity.
\<close>

definition round_half_even :: "rat \<Rightarrow> int" where
  "round_half_even x =
     (let f = \<lfloor>x\<rfloor>; d = x - of_int f
      in if d < 1 / 2 then f else if d > 1 / 2 then f + 1 else if even f then f else f + 1)"

definition pow2 :: "int \<Rightarrow> rat" where
  "pow2 e = (if e \<ge> 0 then 2 ^ nat e else 1 / 2 ^ nat (- e))"

text \<open>The number of binary digits of a positive integer.\<close>

function bit_length :: "int \<Rightarrow> int" where
  "bit_length n = (if n \<le> 0 then 0 else 1 + bit_length (n div 2))"
  by pat_completeness auto
termination
  by (relation "measure nat") auto

declare bit_length.simps [simp del]

text \<open>For a positive rational \<open>x\<close>, the exponent \<open>e\<close> with \<open>2^e \<le> x < 2^(e+1)\<close>.\<close>

definition ilog2 :: "rat \<Rightarrow> int" where
  "ilog2 x =
     (case quotient_of x of (p, q) \<Rightarrow>
        let k = bit_length p - bit_length q
        in if pow2 k \<le> x then k else k - 1)"

definition fl :: "rat \<Rightarrow> rat" where
  "fl x =
     (if x = 0 then 0
      else let e = max (ilog2 \<bar>x\<bar> - 52) (- 1074)
           in of_int (round_half_even (x / pow2 e)) * pow2 e)"

definition is_infinite :: "rat \<Rightarrow> bool" where
  "is_infinite x = (\<bar>x\<bar> \<ge> 2 ^ 1024)"

text \<open>Truncation towards zero.\<close>

definition trunc :: "rat \<Rightarrow> int" where
  "trunc x = (if x < 0 then \<lceil>x\<rceil> else \<lfloor>x\<rfloor>)"

text \<open>\<open>int(x)\<close> for a float: truncation; \<open>OverflowError\<close> for an infinity.\<close>

definition py_int :: "rat \<Rightarrow> py_error + int" where
  "py_int x = (if is_infinite x then Inl OverflowError else Inr (trunc x))"

text \<open>
  The conversion of an \<open>int\<close> operand of a float operation: the nearest double, and
  \<open>OverflowError\<close> when there is none.
\<close>

definition py_float :: "int \<Rightarrow> py_error + rat" where
  "py_float n =
     (if is_infinite (fl (of_int n)) then Inl OverflowError else Inr (fl (of_int n)))"

definition float_mul :: "rat \<Rightarrow> rat \<Rightarrow> rat" where
  "float_mul a b = fl (a * b)"

text \<open>
  \<open>a / b\<close> for two \<open>int\<close>s: the correctly rounded quotient, \<open>ZeroDivisionError\<close> for a
  zero divisor and \<open>OverflowError\<close> for a quotient too large for a float.
\<close>

definition py_truediv :: "int \<Rightarrow> int \<Rightarrow> py_error + rat" where
  "py_truediv a b =
     (if b = 0 then Inl ZeroDivisionError
      else if is_infinite (fl (of_int a / of_int b)) then Inl OverflowError
      else Inr (fl (of_int a / of_int b)))"

section \<open>Gradients and the progress bar\<close>

type_synonym rgb = "int \<times> int \<times> int"

type_synonym rgba = "int \<times> int \<times> int \<times> int"

definition rgb_channels :: "rgb \<Rightarrow> colour" where
  "rgb_channels c = (case c of (r, g, b) \<Rightarrow> [r, g, b])"

definition rgba_channels :: "rgba \<Rightarrow> colour" where
  "rgba_channels c = (case c of (r, g, b, a) \<Rightarrow> [r, g, b, a])"

text \<open>
  What the code takes from the modules \<open>colorsys\<close> and \<open>numpy\<close>, which are not part of
  the repository. \<open>tone color a b\<close> stands for
  \<open>tuple(map(int, hsv_to_rgb(h, s * a, v * b)))\<close> where
  \<open>(h, s, v) = rgb_to_hsv(*color)\<close>; \<open>linspace_u8 start stop num i\<close> stands for sample
  \<open>i\<close> of \<open>np.linspace(start, stop, num)\<close> cast to \<open>uint8\<close>, one value for each
  channel.
\<close>

record library =
  tone :: "rgb \<Rightarrow> rat \<Rightarrow> rat \<Rightarrow> rgb"
  linspace_u8 :: "colour \<Rightarrow> colour \<Rightarrow> int \<Rightarrow> int \<Rightarrow> colour"

definition clamp255 :: "int \<Rightarrow> int" where
  "clamp255 c = max 0 (min 255 c)"

text \<open>
  \<open>create_vertical_gradient_rect\<close>, for RGB colours as its signature has them: row \<open>y\<close>
  of the image holds sample \<open>y\<close> of the interpolation.
\<close>

definition create_vertical_gradient_rect :: "library \<Rightarrow> int \<Rightarrow> int \<Rightarrow> rgb \<Rightarrow> rgb \<Rightarrow> image" where
  "create_vertical_gradient_rect lib width height start_color end_color =
     (if width \<le> 0 \<or> height \<le> 0 then Image_new RGBA (1, 1) [0, 0, 0, 0]
      else
        let start_color' = map clamp255 (rgb_channels start_color);
            end_color' = map clamp255 (rgb_channels end_color)
        in \<lparr>imode = RGB, iwidth = width, iheight = height,
            ipixel = (\<lambda>x y. linspace_u8 lib start_color' end_color' height y)\<rparr>)"

text \<open>
  \<open>create_gradient_image\<close>, for RGBA colours as its caller passes them: column \<open>x\<close> holds
  sample \<open>x\<close>. There is no test of the size: \<open>np.linspace\<close> raises \<open>ValueError\<close> for a
  negative number of samples, \<open>np.tile\<close> for a negative number of repetitions, and a
  size of zero gives an image of that size.
\<close>

definition create_gradient_image :: "library \<Rightarrow> int \<times> int \<Rightarrow> rgba \<Rightarrow> rgba \<Rightarrow> py_error + image" where
  "create_gradient_image lib sz color1 color2 =
     (let color1' = map clamp255 (rgba_channels color1);
          color2' = map clamp255 (rgba_channels color2)
      in if fst sz < 0 then Inl ValueError
         else if snd sz < 0 then Inl ValueError
         else Inr \<lparr>imode = RGBA, iwidth = fst sz, iheight = snd sz,
                   ipixel = (\<lambda>x y. linspace_u8 lib color1' color2' (fst sz) x)\<rparr>)"

text \<open>
  \<open>rounded_rectangle\<close> returns an RGBA image one pixel larger than its argument in each
  dimension: the argument clipped to a rounded rectangle, with an optional outline
  (width and colour).
\<close>

record rounded =
  source :: image
  corner_radius :: int
  border :: "(int \<times> colour) option"

definition rounded_rectangle :: "image \<Rightarrow> int \<Rightarrow> (int \<times> colour) option \<Rightarrow> rounded" where
  "rounded_rectangle im r b = \<lparr>source = im, corner_radius = r, border = b\<rparr>"

text \<open>\<open>Image.new\<close> raises \<open>ValueError\<close> for a negative width or height.\<close>

definition Image_new_checked :: "mode \<Rightarrow> int \<times> int \<Rightarrow> colour \<Rightarrow> py_error + image" where
  "Image_new_checked m sz c =
     (if fst sz < 0 \<or> snd sz < 0 then Inl ValueError else Inr (Image_new m sz c))"

text \<open>
  The progress bar: the frame \<open>border_image\<close> and the fill \<open>bar_image\<close>, pasted on the
  frame at \<open>bar_at\<close>.
\<close>

record progress_bar =
  border_image :: rounded
  bar_image :: rounded
  bar_at :: "int \<times> int"

text \<open>
  \<open>create_progress_bar\<close>, for a finite float \<open>progress\<close>. The width of the fill is
  \<open>int(width * progress) - 6\<close>: the \<open>int\<close> \<open>width\<close> is converted to a float, the product
  is rounded, and \<open>int\<close> truncates it.
\<close>

definition create_progress_bar ::
  "library \<Rightarrow> rat \<Rightarrow> rgb \<Rightarrow> int \<Rightarrow> int \<Rightarrow> py_error + progress_bar" where
  "create_progress_bar lib progress color width height =
     (let bar_color = tone lib color 1 (4 / 5);
          border_color = (case color of (r, g, b) \<Rightarrow> (max (r - 20) 0, max (g - 20) 0, max (b - 20) 0))
      in case Image_new_checked RGBA (width, height) (rgb_channels bar_color) of
           Inl e \<Rightarrow> Inl e
         | Inr frame \<Rightarrow>
             let border_image = rounded_rectangle frame 8 (Some (1, rgb_channels border_color));
                 bar_color_top = tone lib color (1 / 2) (5 / 2);
                 bar_color_bottem = tone lib color (1 / 2) 1
             in case py_float width of
                  Inl e \<Rightarrow> Inl e
                | Inr w \<Rightarrow>
                    (case py_int (float_mul w progress) of
                       Inl e \<Rightarrow> Inl e
                     | Inr filled \<Rightarrow>
                         Inr \<lparr>border_image = border_image,
                              bar_image = rounded_rectangle
                                (create_vertical_gradient_rect lib (filled - 6) (height - 4)
                                   bar_color_top bar_color_bottem) 6 None,
                              bar_at = (3, 2)\<rparr>))"

section \<open>Title blocks (\<open>draw_game_info\<close>)\<close>

record achievement_strip =
  strip_bar :: progress_bar
  icons_at :: "(int \<times> int) list"
  plus_badge :: "(int \<times> int) option"

record game_info =
  info_height :: int
  strip :: "achievement_strip option"

text \<open>
  \<open>draw_game_info\<close>, from the test of the two counts on: without both counts the block
  is cropped to a height of 110; otherwise the strip shows the progress bar for
  \<open>completed / total\<close>, one icon per achievement from \<open>x = 512\<close> on, and a badge
  \<open>+(completed - 5)\<close> after the icons when more than 6 are completed.
\<close>

definition draw_game_info ::
  "library \<Rightarrow> pystr list \<Rightarrow> int option \<Rightarrow> int option \<Rightarrow> rgb \<Rightarrow> py_error + game_info" where
  "draw_game_info lib achievements completed_achievement_number total_achievement_number
       achievement_color =
     (case (completed_achievement_number, total_achievement_number) of
        (Some completed, Some total_number) \<Rightarrow>
          (case py_truediv completed total_number of
             Inl e \<Rightarrow> Inl e
           | Inr progress \<Rightarrow>
               (case create_progress_bar lib progress achievement_color 186 16 of
                  Inl e \<Rightarrow> Inl e
                | Inr bar \<Rightarrow>
                    let x = 860 - 48 * 6 - 10 * 6;
                        n = int (length achievements)
                    in Inr \<lparr>info_height = 110 + 64 + 10,
                            strip = Some \<lparr>strip_bar = bar,
                              icons_at = map (\<lambda>i. (x + (48 + 10) * int i, 8)) [0..<length achievements],
                              plus_badge = (if completed > 6
                                            then Some (x + (48 + 10) * n, completed - 5)
                                            else None)\<rparr>\<rparr>))
      | _ \<Rightarrow> Inr \<lparr>info_height = 110, strip = None\<rparr>)"



section \<open>Colour analysis (\<open>get_brightest_and_darkest_color\<close>)\<close>

text \<open>A pixel of the image converted to HSV: three \<open>uint8\<close> channels.\<close>

type_synonym hsv = "nat \<times> nat \<times> nat"

definition hue :: "hsv \<Rightarrow> nat" where
  "hue p = fst p"

definition saturation :: "hsv \<Rightarrow> nat" where
  "saturation p = fst (snd p)"

definition brightness :: "hsv \<Rightarrow> nat" where
  "brightness p = snd (snd p)"

text \<open>\<open>np.argmax\<close> and \<open>np.argmin\<close> return the first index of the extreme value.\<close>

fun argmax_brightness :: "hsv \<Rightarrow> hsv list \<Rightarrow> hsv" where
  "argmax_brightness best [] = best"
| "argmax_brightness best (p # ps) =
     argmax_brightness (if brightness p > brightness best then p else best) ps"

fun argmin_brightness :: "hsv \<Rightarrow> hsv list \<Rightarrow> hsv" where
  "argmin_brightness best [] = best"
| "argmin_brightness best (p # ps) =
     argmin_brightness (if brightness p < brightness best then p else best) ps"

text \<open>The part of the function after the test of the number of vivid pixels.\<close>

definition pick_extremes :: "(hsv \<Rightarrow> colour) \<Rightarrow> hsv list \<Rightarrow> int \<Rightarrow> colour \<times> colour" where
  "pick_extremes to_rgb vivid_pixels hue_difference_threshold =
     (let brightest_pixel = argmax_brightness (hd vivid_pixels) (tl vivid_pixels);
          darkest_pixel = argmin_brightness (hd vivid_pixels) (tl vivid_pixels);
          hue_difference = \<bar>int (hue brightest_pixel) - int (hue darkest_pixel)\<bar>;
          possible_dark_pixels = filter (\<lambda>p. hue p \<noteq> hue brightest_pixel) vivid_pixels;
          darkest_pixel' =
            (if hue_difference < hue_difference_threshold \<and> length possible_dark_pixels > 0
             then argmin_brightness (hd possible_dark_pixels) (tl possible_dark_pixels)
             else darkest_pixel)
      in (to_rgb brightest_pixel, to_rgb darkest_pixel'))"

text \<open>
  \<open>get_brightest_and_darkest_color\<close> on the pixels of \<open>image.convert("HSV")\<close>, in row
  order. The conversion of a pixel back to RGB is done by the imaging library and is the
  parameter \<open>to_rgb\<close>. The recursive call passes the lowered saturation threshold only,
  so the hue threshold is the default 30 again. \<open>None\<close> is a call that does not return
  (in Python the recursion ends in \<open>RecursionError\<close>).
\<close>

partial_function (option) get_brightest_and_darkest_color ::
  "(hsv \<Rightarrow> colour) \<Rightarrow> hsv list \<Rightarrow> int \<Rightarrow> int \<Rightarrow> (colour \<times> colour) option" where
  "get_brightest_and_darkest_color to_rgb img_hsv saturation_threshold hue_difference_threshold =
     (if length (filter (\<lambda>p. int (saturation p) > saturation_threshold) img_hsv) < 10
      then get_brightest_and_darkest_color to_rgb img_hsv (saturation_threshold - 10) 30
      else Some (pick_extremes to_rgb
                   (filter (\<lambda>p. int (saturation p) > saturation_threshold) img_hsv)
                   hue_difference_threshold))"

section \<open>Mosaic recolouring (\<open>recolor_image\<close>)\<close>

definition nchannels :: "mode \<Rightarrow> nat" where
  "nchannels m = (case m of RGB \<Rightarrow> 3 | RGBA \<Rightarrow> 4)"

text \<open>The pixel positions of an image, in row order.\<close>

definition positions :: "image \<Rightarrow> (int \<times> int) list" where
  "positions im =
     concat (map (\<lambda>y. map (\<lambda>x. (int x, int y)) [0..<nat (iwidth im)]) [0..<nat (iheight im)])"

text \<open>
  \<open>get_average_color\<close>: the mean of every channel, a float, cast to \<open>int\<close>. The sum of
  a channel is exact in a double as long as it is below \<open>2^53\<close>, as it is for every
  image that fits in memory; the quotient by the number of pixels is rounded. An image
  with no pixel has the mean NaN, whose cast is no colour: \<open>None\<close>.
\<close>

definition get_average_color :: "image \<Rightarrow> colour option" where
  "get_average_color im =
     (if positions im = [] then None
      else Some (map (\<lambda>c. trunc (fl (of_int (sum_list (map (\<lambda>(x, y). ipixel im x y ! c) (positions im)))
                                        / of_int (int (length (positions im))))))
                  [0..<nchannels (imode im)]))"

text \<open>\<open>image.crop(box)\<close>; pixels outside the image are zero.\<close>

definition crop :: "image \<Rightarrow> int \<times> int \<times> int \<times> int \<Rightarrow> image" where
  "crop im box =
     (case box of (left, upper, right, lower) \<Rightarrow>
        \<lparr>imode = imode im, iwidth = right - left, iheight = lower - upper,
         ipixel = (\<lambda>x y. if 0 \<le> left + x \<and> left + x < iwidth im
                             \<and> 0 \<le> upper + y \<and> upper + y < iheight im
                          then ipixel im (left + x) (upper + y)
                          else replicate (nchannels (imode im)) 0)\<rparr>)"

text \<open>\<open>range(n)\<close> for an \<open>int\<close>: empty when \<open>n\<close> is not positive.\<close>

definition py_range :: "int \<Rightarrow> int list" where
  "py_range n = map int [0..<nat n]"

definition split_image :: "image \<Rightarrow> int \<Rightarrow> int \<Rightarrow> py_error + (image list \<times> int \<times> int)" where
  "split_image im rows cols =
     (if cols = 0 then Inl ZeroDivisionError
      else if rows = 0 then Inl ZeroDivisionError
      else
        let piece_width = iwidth im div cols;
            piece_height = iheight im div rows;
            pieces = concat (map (\<lambda>r. map (\<lambda>c.
                        crop im (c * piece_width, r * piece_height,
                                 (c + 1) * piece_width, (r + 1) * piece_height))
                      (py_range cols)) (py_range rows))
        in Inr (pieces, piece_width, piece_height))"

text \<open>
  What \<open>recolor_image\<close> paints for one tile: a transparent image \<open>circle\<close> of
  \<open>stamp_size\<close>, an ellipse filled with \<open>blob_color\<close> inside \<open>ellipse_box\<close> of that
  image, pasted on the canvas with its upper left corner at \<open>pasted_at\<close>.
\<close>

record blob =
  stamp_size :: "int \<times> int"
  ellipse_box :: "int \<times> int \<times> int \<times> int"
  blob_color :: "colour option"
  pasted_at :: "int \<times> int"

text \<open>
  The result of \<open>recolor_image\<close>: the canvas, its fill colour and the blobs in the
  order they are pasted. The two filters applied at the end keep the size.
\<close>

record recolored =
  canvas_size :: "int \<times> int"
  canvas_fill :: "colour option"
  blobs :: "blob list"

text \<open>
  The loop over the enumerated pieces. The imaging library refuses the colour of a piece
  with no pixel: \<open>draw.ellipse\<close> raises \<open>OverflowError\<close>.
\<close>

fun paint_blobs :: "int \<Rightarrow> int \<Rightarrow> int \<Rightarrow> int \<Rightarrow> (nat \<times> image) list \<Rightarrow> py_error + blob list" where
  "paint_blobs cols piece_width piece_height radius [] = Inr []"
| "paint_blobs cols piece_width piece_height radius ((i, piece) # rest) =
     (case get_average_color piece of
        None \<Rightarrow> Inl OverflowError
      | Some average_color \<Rightarrow>
          let row = int i div cols;
              col = int i mod cols;
              x = col * piece_width + piece_width div 2;
              y = row * piece_height + piece_height div 2
          in case paint_blobs cols piece_width piece_height radius rest of
               Inl e \<Rightarrow> Inl e
             | Inr bs \<Rightarrow>
                 Inr (\<lparr>stamp_size = (piece_width, piece_height),
                       ellipse_box = (0, 0, piece_width, piece_height),
                       blob_color = Some average_color,
                       pasted_at = (x - radius, y - radius)\<rparr> # bs))"

text \<open>
  \<open>recolor_image\<close>. \<open>Image.new\<close> refuses the average colour of an image with no pixel
  in the same way.
\<close>

definition recolor_image :: "image \<Rightarrow> int \<Rightarrow> int \<Rightarrow> py_error + recolored" where
  "recolor_image im rows cols =
     (let total_average_color = get_average_color im
      in case split_image im rows cols of
           Inl e \<Rightarrow> Inl e
         | Inr (pieces, piece_width, piece_height) \<Rightarrow>
             (case pieces of
                [] \<Rightarrow> Inl IndexError
              | piece0 # _ \<Rightarrow>
                  let diameter = min (iwidth piece0) (iheight piece0);
                      radius = diameter div 2
                  in if total_average_color = None then Inl OverflowError
                     else case paint_blobs cols piece_width piece_height radius
                                 (enumerate 0 pieces) of
                            Inl e \<Rightarrow> Inl e
                          | Inr bs \<Rightarrow>
                              Inr \<lparr>canvas_size = isize im,
                                   canvas_fill = total_average_color,
                                   blobs = bs\<rparr>))"

text \<open>An image 4 wide and 2 high.\<close>

definition wide_image :: image where
  "wide_image = \<lparr>imode = RGB, iwidth = 4, iheight = 2,
                  ipixel = (\<lambda>x y. [10 * x, 20 * y, 30])\<rparr>"

text \<open>A uniform image with no saturation: twelve grey pixels.\<close>

definition grey12 :: "hsv list" where
  "grey12 = replicate 12 (0, 0, 128)"

section \<open>Verified properties\<close>

subsection \<open>Roster classification\<close>

lemma class_cases:
  assumes "0 \<le> personastate d" "personastate d \<le> 6"
  shows "(is_gaming d \<and> \<not> is_online d \<and> \<not> is_offline d)
       \<or> (\<not> is_gaming d \<and> is_online d \<and> \<not> is_offline d)
       \<or> (\<not> is_gaming d \<and> \<not> is_online d \<and> is_offline d)"
proof -
  from assms have "personastate d = 0 \<or> personastate d = 1 \<or> personastate d = 2
      \<or> personastate d = 3 \<or> personastate d = 4 \<or> personastate d = 5 \<or> personastate d = 6"
    by arith
  then consider "personastate d = 0" | "personastate d = 1" | "personastate d = 2"
      | "personastate d = 3" | "personastate d = 4" | "personastate d = 5" | "personastate d = 6"
    by blast
  then show ?thesis
  proof cases
    case 1 then show ?thesis by (simp add: is_gaming_def is_online_def is_offline_def)
  next
    case 2 then show ?thesis by (simp add: is_gaming_def is_online_def is_offline_def)
  next
    case 3 then show ?thesis by (simp add: is_gaming_def is_online_def is_offline_def)
  next
    case 4 then show ?thesis by (simp add: is_gaming_def is_online_def is_offline_def)
  next
    case 5 then show ?thesis by (simp add: is_gaming_def is_online_def is_offline_def)
  next
    case 6 then show ?thesis by (simp add: is_gaming_def is_online_def is_offline_def)
  next
    case 7 then show ?thesis by (simp add: is_gaming_def is_online_def is_offline_def)
  qed
qed

lemma mset_three_filters:
  assumes "\<forall>d\<in>set xs. (P d \<and> \<not> Q d \<and> \<not> R d) \<or> (\<not> P d \<and> Q d \<and> \<not> R d) \<or> (\<not> P d \<and> \<not> Q d \<and> R d)"
  shows "mset (filter P xs) + mset (filter Q xs) + mset (filter R xs) = mset xs"
  using assms by (induction xs) auto

lemma gaming_members_mset: "mset (gaming_members data) = mset (filter is_gaming data)"
  by (simp add: gaming_members_def draw_gaming_friends_status_def Let_def)

lemma online_members_mset: "mset (online_members data) = mset (filter is_online data)"
  by (simp add: online_members_def)

lemma offline_members_mset: "mset (offline_members data) = mset (filter is_offline data)"
  by (simp add: offline_members_def)

lemma gaming_members_set: "set (gaming_members data) = {d \<in> set data. is_gaming d}"
  by (simp add: gaming_members_def draw_gaming_friends_status_def Let_def)

lemma online_members_set: "set (online_members data) = {d \<in> set data. is_online d}"
  by (simp add: online_members_def)

lemma offline_members_set: "set (offline_members data) = {d \<in> set data. is_offline d}"
  by (simp add: offline_members_def)

text \<open>The partition, for the lists the sections are drawn from.\<close>

lemma members_partition:
  assumes "\<forall>d\<in>set data. 0 \<le> personastate d \<and> personastate d \<le> 6"
  shows "mset (gaming_members data) + mset (online_members data) + mset (offline_members data)
           = mset data
       \<and> (\<forall>d\<in>set data.
            (d \<in> set (gaming_members data) \<longleftrightarrow>
               personastate d \<in> {1, 3, 4} \<and> status d \<noteq> generic_label (personastate d))
          \<and> (d \<in> set (offline_members data) \<longleftrightarrow> personastate d = 0)
          \<and> (d \<in> set (online_members data) \<longleftrightarrow>
               d \<notin> set (gaming_members data) \<and> d \<notin> set (offline_members data)))"
proof -
  have cases: "\<forall>d\<in>set data. (is_gaming d \<and> \<not> is_online d \<and> \<not> is_offline d)
       \<or> (\<not> is_gaming d \<and> is_online d \<and> \<not> is_offline d)
       \<or> (\<not> is_gaming d \<and> \<not> is_online d \<and> is_offline d)"
    using assms class_cases by blast
  have part: "mset (gaming_members data) + mset (online_members data) + mset (offline_members data)
           = mset data"
    unfolding gaming_members_mset online_members_mset offline_members_mset
    using cases by (rule mset_three_filters)
  have g: "is_gaming d \<longleftrightarrow> personastate d \<in> {1, 3, 4} \<and> status d \<noteq> generic_label (personastate d)" for d
    by (auto simp: is_gaming_def generic_label_def)
  have off: "is_offline d \<longleftrightarrow> personastate d = 0" for d
    by (simp add: is_offline_def)
  have mem: "\<forall>d\<in>set data.
            (d \<in> set (gaming_members data) \<longleftrightarrow>
               personastate d \<in> {1, 3, 4} \<and> status d \<noteq> generic_label (personastate d))
          \<and> (d \<in> set (offline_members data) \<longleftrightarrow> personastate d = 0)
          \<and> (d \<in> set (online_members data) \<longleftrightarrow>
               d \<notin> set (gaming_members data) \<and> d \<notin> set (offline_members data))"
  proof
    fix d assume d: "d \<in> set data"
    with cases have c: "(is_gaming d \<and> \<not> is_online d \<and> \<not> is_offline d)
       \<or> (\<not> is_gaming d \<and> is_online d \<and> \<not> is_offline d)
       \<or> (\<not> is_gaming d \<and> \<not> is_online d \<and> is_offline d)" by blast
    have 1: "d \<in> set (gaming_members data) \<longleftrightarrow> is_gaming d"
      using d by (simp add: gaming_members_set)
    have 2: "d \<in> set (online_members data) \<longleftrightarrow> is_online d"
      using d by (simp add: online_members_set)
    have 3: "d \<in> set (offline_members data) \<longleftrightarrow> is_offline d"
      using d by (simp add: offline_members_set)
    show "(d \<in> set (gaming_members data) \<longleftrightarrow>
               personastate d \<in> {1, 3, 4} \<and> status d \<noteq> generic_label (personastate d))
          \<and> (d \<in> set (offline_members data) \<longleftrightarrow> personastate d = 0)
          \<and> (d \<in> set (online_members data) \<longleftrightarrow>
               d \<notin> set (gaming_members data) \<and> d \<notin> set (offline_members data))"
      unfolding 1 2 3 using c g [of d] off [of d] by blast
  qed
  show ?thesis
    using part mem by (rule conjI)
qed

lemma roster3_sorted: "sort_key personastate roster3 = [p_off, p_generic, p_cs]"
  by (simp add: roster3_def p_generic_def p_cs_def p_off_def)

lemma roster3_classes:
  "is_gaming p_cs" "\<not> is_gaming p_generic" "\<not> is_gaming p_off"
  "is_online p_generic" "\<not> is_online p_cs" "\<not> is_online p_off"
  "is_offline p_off" "\<not> is_offline p_cs" "\<not> is_offline p_generic"
  by (simp_all add: is_gaming_def is_online_def is_offline_def p_generic_def p_cs_def p_off_def
      str_online_def str_away_def)

lemma roster3_members:
  "gaming_members roster3 = [p_cs]" "online_members roster3 = [p_generic]"
  "offline_members roster3 = [p_off]"
  by (simp_all add: gaming_members_def online_members_def offline_members_def
      draw_gaming_friends_status_def Let_def roster3_sorted roster3_classes)

subsection \<open>The sections of the drawn roster\<close>

lemma map_snd_section_rows: "map snd (section_rows xs) = xs"
  by (simp add: section_rows_def o_def case_prod_unfold)


subsection \<open>Roster composition\<close>

lemma sections_paste_sections:
  "concat (map (\<lambda>op. case op of PasteSection s y \<Rightarrow> [s] | _ \<Rightarrow> []) (paste_sections i n y ss)) = ss"
  by (induction ss arbitrary: i y) simp_all


lemma sort_key_Nil_iff: "sort_key f xs = [] \<longleftrightarrow> xs = []"
proof -
  have "length (sort_key f xs) = length xs" by simp
  then show ?thesis by (metis length_0_conv)
qed

lemma status_images_eq:
  "status_images data =
     (if gaming_members data \<noteq> []
      then [\<lparr>kind = Gaming, member_rows = section_rows (gaming_members data),
             sheight = section_height (gaming_members data)\<rparr>] else [])
     @ (if online_members data \<noteq> [] then [draw_online_friends_status (online_members data)] else [])
     @ (if offline_members data \<noteq> [] then [draw_offline_friends_status (offline_members data)] else [])"
  by (simp add: status_images_def gaming_members_def online_members_def offline_members_def
      draw_gaming_friends_status_def Let_def sort_key_Nil_iff)

lemma sections_draw: "sections (draw_friends_status av nm data) = status_images data"
  by (simp add: sections_def draw_friends_status_def Let_def sections_paste_sections)


lemma section_members_draw:
  "section_members Gaming (draw_friends_status av nm data) = gaming_members data"
  "section_members Online (draw_friends_status av nm data) = online_members data"
  "section_members Offline (draw_friends_status av nm data) = offline_members data"
  by (simp_all add: section_members_def sections_draw status_images_eq
      draw_online_friends_status_def draw_offline_friends_status_def map_snd_section_rows)








subsection \<open>Roster classification of the drawn sections\<close>

text \<open>
  Claim C2. For a list of records whose persona states lie in 0..6 the sections that
  \<open>draw_friends_status\<close> draws partition the input: as multisets the rows of the
  Gaming, Online and Offline sections add up to the input, and a record is in a row of
  the Gaming section iff its state is Online (1), Away (3) or Snooze (4) and its status
  text is not the generic label of that state, in the Offline section iff its state is 0,
  and in the Online section iff it is in neither of the other two.
\<close>

theorem roster_partition:
  assumes "\<forall>d\<in>set data. 0 \<le> personastate d \<and> personastate d \<le> 6"
  shows "mset (section_members Gaming (draw_friends_status av nm data))
           + mset (section_members Online (draw_friends_status av nm data))
           + mset (section_members Offline (draw_friends_status av nm data))
           = mset data
       \<and> (\<forall>d\<in>set data.
            (d \<in> set (section_members Gaming (draw_friends_status av nm data)) \<longleftrightarrow>
               personastate d \<in> {1, 3, 4} \<and> status d \<noteq> generic_label (personastate d))
          \<and> (d \<in> set (section_members Offline (draw_friends_status av nm data)) \<longleftrightarrow>
               personastate d = 0)
          \<and> (d \<in> set (section_members Online (draw_friends_status av nm data)) \<longleftrightarrow>
               d \<notin> set (section_members Gaming (draw_friends_status av nm data))
               \<and> d \<notin> set (section_members Offline (draw_friends_status av nm data))))"
  unfolding section_members_draw using assms by (rule members_partition)

text \<open>The three-record roster satisfies the hypothesis of C2 and is split one record per section.\<close>

theorem roster_partition_witness:
  "0 \<le> personastate p_generic \<and> personastate p_generic \<le> 6
   \<and> 0 \<le> personastate p_cs \<and> personastate p_cs \<le> 6
   \<and> 0 \<le> personastate p_off \<and> personastate p_off \<le> 6
   \<and> mset (section_members Gaming (draw_friends_status (Image_new RGB (72, 72) [0, 0, 0]) [83] roster3))
        + mset (section_members Online (draw_friends_status (Image_new RGB (72, 72) [0, 0, 0]) [83] roster3))
        + mset (section_members Offline (draw_friends_status (Image_new RGB (72, 72) [0, 0, 0]) [83] roster3))
        = mset roster3
   \<and> section_members Gaming (draw_friends_status (Image_new RGB (72, 72) [0, 0, 0]) [83] roster3) = [p_cs]
   \<and> section_members Online (draw_friends_status (Image_new RGB (72, 72) [0, 0, 0]) [83] roster3) = [p_generic]
   \<and> section_members Offline (draw_friends_status (Image_new RGB (72, 72) [0, 0, 0]) [83] roster3) = [p_off]"
proof -
  have h: "\<forall>d\<in>set roster3. 0 \<le> personastate d \<and> personastate d \<le> 6"
    by (simp add: roster3_def p_generic_def p_cs_def p_off_def)
  from roster_partition [OF h, of "Image_new RGB (72, 72) [0, 0, 0]" "[83]"] have
    "mset (section_members Gaming (draw_friends_status (Image_new RGB (72, 72) [0, 0, 0]) [83] roster3))
        + mset (section_members Online (draw_friends_status (Image_new RGB (72, 72) [0, 0, 0]) [83] roster3))
        + mset (section_members Offline (draw_friends_status (Image_new RGB (72, 72) [0, 0, 0]) [83] roster3))
        = mset roster3" by blast
  moreover have "0 \<le> personastate p_generic \<and> personastate p_generic \<le> 6
   \<and> 0 \<le> personastate p_cs \<and> personastate p_cs \<le> 6
   \<and> 0 \<le> personastate p_off \<and> personastate p_off \<le> 6"
    by (simp add: p_generic_def p_cs_def p_off_def)
  ultimately show ?thesis
    by (simp only: section_members_draw roster3_members simp_thms)
qed

subsection \<open>Ordering inside the sections\<close>

lemma sorted_split_at:
  "sorted (map f xs) \<Longrightarrow>
   xs = filter (\<lambda>x. f x < k) xs @ filter (\<lambda>x. \<not> f x < k) xs"
proof (induction xs)
  case Nil
  then show ?case by simp
next
  case (Cons x xs)
  show ?case
  proof (cases "f x < k")
    case True
    with Cons show ?thesis by simp
  next
    case False
    from Cons.prems have "\<forall>y\<in>set xs. f x \<le> f y" by simp
    with False have all: "\<forall>y\<in>set xs. \<not> f y < k" by auto
    then have "filter (\<lambda>x. f x < k) xs = []" "filter (\<lambda>x. \<not> f x < k) xs = xs"
      by (simp_all add: filter_empty_conv filter_id_conv)
    with False show ?thesis by simp
  qed
qed

lemma online_key_less_7:
  "is_online d \<Longrightarrow> online_key d < 7 \<longleftrightarrow> personastate d \<noteq> 3"
  by (auto simp: is_online_def online_key_def)

lemma online_members_online: "d \<in> set (online_members data) \<Longrightarrow> is_online d"
  by (simp add: online_members_set)

text \<open>The ordering, for the lists the sections are drawn from.\<close>

lemma members_ordering:
  "sorted (map online_key (online_members data))
   \<and> online_members data =
       filter (\<lambda>d. personastate d \<noteq> 3) (online_members data)
       @ filter (\<lambda>d. personastate d = 3) (online_members data)
   \<and> sorted (map personastate (filter (\<lambda>d. personastate d \<noteq> 3) (online_members data)))
   \<and> sorted (map status (gaming_members data))"
proof -
  let ?om = "online_members data"
  have s: "sorted (map online_key ?om)"
    by (simp add: online_members_def)
  have f1: "filter (\<lambda>d. online_key d < 7) ?om = filter (\<lambda>d. personastate d \<noteq> 3) ?om"
    by (rule filter_cong) (simp_all add: online_key_less_7 online_members_online)
  have f2: "filter (\<lambda>d. \<not> online_key d < 7) ?om = filter (\<lambda>d. personastate d = 3) ?om"
    by (rule filter_cong) (simp_all add: online_key_less_7 online_members_online)
  from sorted_split_at [OF s, of 7] have split: "?om =
       filter (\<lambda>d. personastate d \<noteq> 3) ?om @ filter (\<lambda>d. personastate d = 3) ?om"
    unfolding f1 f2 .
  have "sorted (map online_key (filter (\<lambda>d. personastate d \<noteq> 3) ?om))"
    using s by (rule sorted_filter)
  moreover have "map online_key (filter (\<lambda>d. personastate d \<noteq> 3) ?om)
      = map personastate (filter (\<lambda>d. personastate d \<noteq> 3) ?om)"
    by (rule map_cong) (simp_all add: online_key_def)
  ultimately have asc: "sorted (map personastate (filter (\<lambda>d. personastate d \<noteq> 3) ?om))"
    by simp
  have g: "sorted (map status (gaming_members data))"
    by (simp add: gaming_members_def draw_gaming_friends_status_def Let_def)
  from s split asc g show ?thesis by blast
qed

lemma roster6_sorted:
  "sort_key personastate roster6 = [p_cs, p_generic, p_busy, p_away, p_apex, p_snooze]"
  by (simp add: roster6_def p_generic_def p_cs_def p_away_def p_busy_def p_snooze_def p_apex_def)

lemma roster6_classes:
  "is_gaming p_cs" "\<not> is_gaming p_generic" "\<not> is_gaming p_busy" "\<not> is_gaming p_away"
  "is_gaming p_apex" "\<not> is_gaming p_snooze"
  "is_online p_generic" "\<not> is_online p_cs" "is_online p_busy" "is_online p_away"
  "\<not> is_online p_apex" "is_online p_snooze"
  by (simp_all add: is_gaming_def is_online_def p_generic_def p_cs_def p_away_def p_busy_def
      p_snooze_def p_apex_def str_online_def str_away_def)

lemma roster6_members:
  "online_members roster6 = [p_generic, p_busy, p_snooze, p_away]"
  "gaming_members roster6 = [p_apex, p_cs]"
proof -
  have "filter is_online (sort_key personastate roster6) = [p_generic, p_busy, p_away, p_snooze]"
    by (simp add: roster6_sorted roster6_classes)
  then show "online_members roster6 = [p_generic, p_busy, p_snooze, p_away]"
    by (simp add: online_members_def)
      (simp add: online_key_def p_generic_def p_away_def p_busy_def p_snooze_def)
  have "filter is_gaming (sort_key personastate roster6) = [p_cs, p_apex]"
    by (simp add: roster6_sorted roster6_classes)
  then show "gaming_members roster6 = [p_apex, p_cs]"
    by (simp add: gaming_members_def draw_gaming_friends_status_def Let_def)
      (simp add: p_cs_def p_apex_def)
qed

text \<open>
  Claim C8. The rows of the Online section that \<open>draw_friends_status\<close> draws are
  sorted by the key that is 7 for Away (3) and the persona state otherwise: the members
  that are not Away come first, in ascending order of persona state, and all Away
  members come after them. The rows of the Gaming section are sorted by status text, in
  the lexicographic order of strings.
\<close>

theorem section_ordering:
  "sorted (map online_key (section_members Online (draw_friends_status av nm data)))
   \<and> section_members Online (draw_friends_status av nm data) =
       filter (\<lambda>d. personastate d \<noteq> 3) (section_members Online (draw_friends_status av nm data))
       @ filter (\<lambda>d. personastate d = 3) (section_members Online (draw_friends_status av nm data))
   \<and> sorted (map personastate
         (filter (\<lambda>d. personastate d \<noteq> 3)
            (section_members Online (draw_friends_status av nm data))))
   \<and> sorted (map status (section_members Gaming (draw_friends_status av nm data)))"
  unfolding section_members_draw by (rule members_ordering)

text \<open>
  Six records: Snooze (4) precedes Away (3) in the Online section, and the status
  \<open>Apex\<close> precedes \<open>Counter-Strike\<close> in the Gaming section.
\<close>

theorem section_ordering_witness:
  "section_members Online (draw_friends_status (Image_new RGB (72, 72) [0, 0, 0]) [83] roster6)
     = [p_generic, p_busy, p_snooze, p_away]
   \<and> section_members Gaming (draw_friends_status (Image_new RGB (72, 72) [0, 0, 0]) [83] roster6)
     = [p_apex, p_cs]
   \<and> sorted (map online_key [p_generic, p_busy, p_snooze, p_away])
   \<and> sorted (map status [p_apex, p_cs])"
proof -
  from section_ordering [of "Image_new RGB (72, 72) [0, 0, 0]" "[83]" roster6]
  have "sorted (map online_key
           (section_members Online (draw_friends_status (Image_new RGB (72, 72) [0, 0, 0]) [83] roster6)))
      \<and> sorted (map status
           (section_members Gaming (draw_friends_status (Image_new RGB (72, 72) [0, 0, 0]) [83] roster6)))"
    by blast
  then show ?thesis
    by (simp only: section_members_draw roster6_members simp_thms)
qed

subsection \<open>Effect on the caller's list\<close>

text \<open>
  Claim C10, amended. Rendering the roster changes no record, but it sorts the caller's
  list in place: after the call the list holds the same records, stably sorted by
  persona state (so it is unchanged when it was sorted already);
  \<open>draw_gaming_friends_status\<close> likewise leaves its argument sorted by status text.
\<close>

theorem roster_input_reordered:
  "caller_data (draw_friends_status av nm data) = sort_key personastate data
   \<and> mset (caller_data (draw_friends_status av nm data)) = mset data
   \<and> (sorted (map personastate data) \<longrightarrow> caller_data (draw_friends_status av nm data) = data)
   \<and> fst (draw_gaming_friends_status data) = sort_key status data"
  by (simp add: draw_friends_status_def draw_gaming_friends_status_def Let_def sort_key_id_if_sorted)

text \<open>A list that is sorted by persona state is left as it was.\<close>

theorem roster_input_reordered_witness:
  "sorted (map personastate [p_off, p_generic])
   \<and> caller_data (draw_friends_status (Image_new RGB (72, 72) [0, 0, 0]) [83] [p_off, p_generic])
       = [p_off, p_generic]"
proof -
  have h: "sorted (map personastate [p_off, p_generic])"
    by (simp add: p_off_def p_generic_def)
  with roster_input_reordered [of "Image_new RGB (72, 72) [0, 0, 0]" "[83]" "[p_off, p_generic]"]
  show ?thesis by blast
qed

text \<open>
  Counterexample to C10 as stated: the three-record roster is not in the same order
  after the call.
\<close>

theorem roster_read_only_counterexample:
  "caller_data (draw_friends_status (Image_new RGB (72, 72) [0, 0, 0]) [83] roster3) \<noteq> roster3"
  by (simp add: draw_friends_status_def Let_def roster3_sorted)
    (simp add: roster3_def p_off_def p_generic_def)

subsection \<open>Biography wrapping\<close>

lemma bio_loop_take:
  "k < 4 \<Longrightarrow>
   map snd (bio_loop g s line w (25 * int k)) = take (4 - k) (spec_segments g s line w)"
proof (induction s arbitrary: line w k)
  case Nil
  then show ?case by simp
next
  case (Cons c rest)
  show ?case
  proof (cases "w + g c > 640 \<or> rest = [] \<or> c = 10")
    case True
    show ?thesis
    proof (cases "k = 3")
      case True
      with \<open>w + g c > 640 \<or> rest = [] \<or> c = 10\<close> show ?thesis by auto
    next
      case False
      with Cons.prems have k: "Suc k < 4" by simp
      have "25 * int k + 25 = 25 * int (Suc k)" by simp
      with Cons.IH [OF k, of "[]" 0] k True show ?thesis
        by (auto simp: take_Cons' simp del: of_nat_Suc)
    qed
  next
    case False
    with Cons.IH [OF Cons.prems, of "line @ [c]" "w + g c"] Cons.prems show ?thesis
      by auto
  qed
qed

lemma bio_loop_offsets:
  "k < 4 \<Longrightarrow>
   map fst (bio_loop g s line w (25 * int k))
     = map (\<lambda>i. 132 + 25 * int i) [k..<k + length (bio_loop g s line w (25 * int k))]"
proof (induction s arbitrary: line w k)
  case Nil
  then show ?case by simp
next
  case (Cons c rest)
  show ?case
  proof (cases "w + g c > 640 \<or> rest = [] \<or> c = 10")
    case True
    show ?thesis
    proof (cases "k = 3")
      case True
      with \<open>w + g c > 640 \<or> rest = [] \<or> c = 10\<close> show ?thesis by auto
    next
      case False
      with Cons.prems have k: "Suc k < 4" by simp
      have e: "25 * int k + 25 = 25 * int (Suc k)" by simp
      from k have n: "\<not> 25 * int k + 25 \<ge> 25 * 4" by simp
      show ?thesis
        using Cons.IH [OF k, of "[]" 0] True n
        by (simp only: bio_loop.simps if_True if_False e list.map fst_conv length_Cons)
          (simp add: upt_conv_Cons del: of_nat_Suc upt_Suc)
    qed
  next
    case False
    with Cons.IH [OF Cons.prems, of "line @ [c]" "w + g c"] Cons.prems show ?thesis
      by auto
  qed
qed

lemma concat_spec_segments: "\<exists>r. line @ s = concat (spec_segments g s line w) @ r"
proof (induction s arbitrary: line w)
  case Nil
  then show ?case by simp
next
  case (Cons c rest)
  show ?case
  proof (cases "w + g c > 640 \<or> c = 10 \<or> rest = []")
    case True
    from Cons.IH [of "[]" 0] obtain r where "rest = concat (spec_segments g rest [] 0) @ r"
      by auto
    with True show ?thesis by auto
  next
    case False
    from Cons.IH [of "line @ [c]" "w + g c"] False show ?thesis by auto
  qed
qed

lemma concat_take_prefix: "\<exists>r. concat xss = concat (take n xss) @ r"
proof -
  have "concat xss = concat (take n xss) @ concat (drop n xss)"
    by (metis append_take_drop_id concat_append)
  then show ?thesis by blast
qed

text \<open>
  Claim C6. For every biography and every font, the profile card draws at most four
  lines; their texts are the first four lines of the wrapping rule (a line ends where
  the accumulated width exceeds 640, at a newline, and at the end of the input); they
  are drawn 25 pixels apart from 132 down; and together they are an initial part of
  the biography: what follows is dropped and nothing is added.
\<close>

theorem bio_wrapping:
  "length (bio_lines g s) \<le> 4
   \<and> map snd (bio_lines g s) = take 4 (spec_segments g s [] 0)
   \<and> map fst (bio_lines g s) = map (\<lambda>i. 132 + 25 * int i) [0..<length (bio_lines g s)]
   \<and> (\<exists>r. s = concat (map snd (bio_lines g s)) @ r)"
proof -
  have t: "map snd (bio_lines g s) = take 4 (spec_segments g s [] 0)"
    using bio_loop_take [of 0 g s "[]" 0] by (simp add: bio_lines_def)
  have "length (map snd (bio_lines g s)) \<le> 4"
    unfolding t by simp
  then have l: "length (bio_lines g s) \<le> 4" by simp
  have f: "map fst (bio_lines g s) = map (\<lambda>i. 132 + 25 * int i) [0..<length (bio_lines g s)]"
    using bio_loop_offsets [of 0 g s "[]" 0] by (simp add: bio_lines_def)
  from concat_spec_segments [of "[]" s g 0]
  obtain r where "s = concat (spec_segments g s [] 0) @ r" by auto
  moreover from concat_take_prefix [of "spec_segments g s [] 0" 4]
  obtain r' where "concat (spec_segments g s [] 0) = concat (take 4 (spec_segments g s [] 0)) @ r'"
    by blast
  ultimately have "s = concat (map snd (bio_lines g s)) @ (r' @ r)"
    unfolding t by simp
  then have p: "\<exists>r. s = concat (map snd (bio_lines g s)) @ r" by blast
  from l t f p show ?thesis by blast
qed

text \<open>
  Seventeen characters, each 200 wide: four lines of four characters, the last character
  dropped. With characters 700 wide every line holds one character, and there are still
  four lines.
\<close>

theorem bio_wrapping_witness:
  "bio_lines (\<lambda>c. 200) alphabet17 =
     [(132, [97, 98, 99, 100]), (157, [101, 102, 103, 104]),
      (182, [105, 106, 107, 108]), (207, [109, 110, 111, 112])]
   \<and> map snd (bio_lines (\<lambda>c. 700) alphabet17) = [[97], [98], [99], [100]]
   \<and> length (bio_lines (\<lambda>c. 700) alphabet17) \<le> 4"
proof -
  have a: "bio_lines (\<lambda>c. 200) alphabet17 =
     [(132, [97, 98, 99, 100]), (157, [101, 102, 103, 104]),
      (182, [105, 106, 107, 108]), (207, [109, 110, 111, 112])]"
    by (simp add: bio_lines_def alphabet17_def)
  have b: "map snd (bio_lines (\<lambda>c. 700) alphabet17) = [[97], [98], [99], [100]]"
    by (simp add: bio_lines_def alphabet17_def)
  from bio_wrapping [of "\<lambda>c. 700" alphabet17] have "length (bio_lines (\<lambda>c. 700) alphabet17) \<le> 4"
    by blast
  with a b show ?thesis by blast
qed

subsection \<open>Rounding to a double\<close>









subsection \<open>Title blocks, gradients and the progress bar\<close>

text \<open>
  Claim C1. The source divides \<open>completed\<close> by \<open>total\<close> with no test for zero: for every
  entry with both counts present and \<open>total = 0\<close> the call fails with
  \<open>ZeroDivisionError\<close> instead of drawing a bar of progress 0.
\<close>

theorem draw_game_info_total_zero:
  "draw_game_info lib achievements (Some completed) (Some 0) color = Inl ZeroDivisionError"
  by (simp add: draw_game_info_def py_truediv_def)



text \<open>
  Claim C9. The vertical gradient has the guard, the horizontal one does not: for a
  width of -1 the vertical constructor returns the 1 by 1 transparent pixel, and
  \<open>create_gradient_image\<close> fails with \<open>ValueError\<close>.
\<close>

theorem horizontal_gradient_unguarded:
  "create_gradient_image lib (-1, 50) color1 color2 = Inl ValueError
   \<and> create_vertical_gradient_rect lib (-1) 50 start_color end_color
       = Image_new RGBA (1, 1) [0, 0, 0, 0]"
  by (simp add: create_gradient_image_def create_vertical_gradient_rect_def)




subsection \<open>Threshold relaxation\<close>

lemma vivid_extremes_needs_ten:
  assumes "get_brightest_and_darkest_color to_rgb img thr h = Some y"
  shows "10 \<le> length img"
proof (rule get_brightest_and_darkest_color.raw_induct
    [where P = "\<lambda>c img t h y. 10 \<le> length img", OF _ assms])
  fix f :: "(hsv \<Rightarrow> colour) \<Rightarrow> hsv list \<Rightarrow> int \<Rightarrow> int \<Rightarrow> (colour \<times> colour) option"
  fix c img t h y
  assume ih: "\<And>c img t h y. f c img t h = Some y \<Longrightarrow> 10 \<le> length img"
  assume body: "(if length (filter (\<lambda>p. int (saturation p) > t) img) < 10
      then f c img (t - 10) 30
      else Some (pick_extremes c (filter (\<lambda>p. int (saturation p) > t) img) h)) = Some y"
  show "10 \<le> length img"
  proof (cases "length (filter (\<lambda>p. int (saturation p) > t) img) < 10")
    case True
    with body have "f c img (t - 10) 30 = Some y" by simp
    then show ?thesis by (rule ih)
  next
    case False
    have "length (filter (\<lambda>p. int (saturation p) > t) img) \<le> length img"
      by (rule length_filter_le)
    with False show ?thesis by linarith
  qed
qed

lemma vivid_extremes_small_image:
  "length img < 10 \<Longrightarrow> get_brightest_and_darkest_color to_rgb img thr h = None"
  using vivid_extremes_needs_ten [of to_rgb img thr h] by (cases "get_brightest_and_darkest_color to_rgb img thr h") auto

lemma vivid_extremes_returns:
  assumes "10 \<le> length img"
  shows "\<exists>y. get_brightest_and_darkest_color to_rgb img thr h = Some y"
proof (induction "nat (thr + 10)" arbitrary: thr h rule: less_induct)
  case less
  show ?case
  proof (cases "length (filter (\<lambda>p. int (saturation p) > thr) img) < 10")
    case False
    then show ?thesis
      by (subst get_brightest_and_darkest_color.simps) simp
  next
    case True
    have "0 \<le> thr"
    proof (rule ccontr)
      assume "\<not> 0 \<le> thr"
      then have "filter (\<lambda>p. int (saturation p) > thr) img = img"
        by (simp add: filter_id_conv)
      with True assms show False by simp
    qed
    then have "nat (thr - 10 + 10) < nat (thr + 10)" by simp
    from less [OF this, of 30] obtain y where
      "get_brightest_and_darkest_color to_rgb img (thr - 10) 30 = Some y" by blast
    with True show ?thesis
      by (subst get_brightest_and_darkest_color.simps) simp
  qed
qed

text \<open>
  Claim C3. The retry bottoms out only when the image has at least ten pixels. For a
  1 by 1 image no threshold, however low, leaves ten pixels, every call recurses again,
  and the function never returns a pair of colours.
\<close>

theorem vivid_extremes_one_pixel:
  "get_brightest_and_darkest_color to_rgb [(0, 0, 0)] 100 30 = None"
  by (rule vivid_extremes_small_image) simp

subsection \<open>Threshold relaxation on a uniform image\<close>

text \<open>
  On the grey image no pixel is vivid until the threshold is negative; the eleventh retry,
  at threshold -10, takes every pixel and returns.
\<close>

lemma grey12_vivid:
  "filter (\<lambda>p. int (saturation p) > t) grey12 = (if t < 0 then grey12 else [])"
  by (simp add: grey12_def saturation_def)

lemma grey12_length: "length grey12 = 12"
  by (simp add: grey12_def)

lemma grey12_pick: "pick_extremes to_rgb grey12 h = (to_rgb (0, 0, 128), to_rgb (0, 0, 128))"
  by (simp add: pick_extremes_def grey12_def Let_def hue_def brightness_def eval_nat_numeral)

lemma vivid_extremes_uniform:
  "get_brightest_and_darkest_color to_rgb grey12 100 30
     = Some (to_rgb (0, 0, 128), to_rgb (0, 0, 128))"
proof -
  have bottom: "get_brightest_and_darkest_color to_rgb grey12 (-10) 30
     = Some (to_rgb (0, 0, 128), to_rgb (0, 0, 128))"
    by (subst get_brightest_and_darkest_color.simps)
      (simp add: grey12_vivid grey12_length grey12_pick)
  have step: "0 \<le> t \<Longrightarrow> get_brightest_and_darkest_color to_rgb grey12 t h
      = get_brightest_and_darkest_color to_rgb grey12 (t - 10) 30" for t h
    by (subst get_brightest_and_darkest_color.simps) (simp add: grey12_vivid)
  show ?thesis
    using bottom
    by (simp add: step [of 100] step [of 90] step [of 80] step [of 70] step [of 60]
        step [of 50] step [of 40] step [of 30] step [of 20] step [of 10] step [of 0])
qed

subsection \<open>Tiles and blobs\<close>

lemma positions_nonempty:
  assumes "0 < iwidth im" "0 < iheight im"
  shows "positions im \<noteq> []"
proof -
  from assms obtain m n where "nat (iwidth im) = Suc m" "nat (iheight im) = Suc n"
    by (metis Suc_pred' zero_less_nat_eq)
  then show ?thesis
    by (simp add: positions_def upt_conv_Cons del: upt_Suc)
qed

lemma paint_blobs_ok:
  assumes "\<forall>p\<in>set ps. get_average_color (snd p) \<noteq> None"
  shows "\<exists>bs. paint_blobs cols w h r ps = Inr bs \<and> length bs = length ps"
  using assms
proof (induction ps)
  case Nil
  then show ?case by simp
next
  case (Cons p ps)
  obtain i piece where p: "p = (i, piece)" by (cases p)
  from Cons.prems p obtain c where c: "get_average_color piece = Some c" by auto
  from Cons obtain bs where "paint_blobs cols w h r ps = Inr bs" "length bs = length ps"
    by auto
  with p c show ?case by (simp add: Let_def)
qed

lemma split_image_pieces:
  assumes "1 \<le> rows" "1 \<le> cols"
  shows "\<exists>p ps. split_image im rows cols
           = Inr (p # ps, iwidth im div cols, iheight im div rows)
         \<and> length (p # ps) = nat rows * nat cols
         \<and> (\<forall>q\<in>set (p # ps). iwidth q = iwidth im div cols \<and> iheight q = iheight im div rows)"
proof -
  let ?pieces = "concat (map (\<lambda>r. map (\<lambda>c.
                        crop im (c * (iwidth im div cols), r * (iheight im div rows),
                                 (c + 1) * (iwidth im div cols), (r + 1) * (iheight im div rows)))
                      (py_range cols)) (py_range rows))"
  have eq: "split_image im rows cols = Inr (?pieces, iwidth im div cols, iheight im div rows)"
    using assms by (simp add: split_image_def Let_def)
  have len: "length ?pieces = nat rows * nat cols"
    by (simp add: length_concat o_def py_range_def sum_list_triv)
  have sz: "\<forall>q\<in>set ?pieces. iwidth q = iwidth im div cols \<and> iheight q = iheight im div rows"
    by (auto simp: crop_def algebra_simps)
  from assms have "0 < nat rows * nat cols" by simp
  with len obtain p ps where ne: "?pieces = p # ps"
    by (cases ?pieces) auto
  from eq len sz show ?thesis unfolding ne by blast
qed

text \<open>
  When every tile has at least one pixel, the result has the size of the input, is
  filled with the average colour of the input and has one blob for each tile.
\<close>

lemma recolor_image_size:
  assumes "1 \<le> rows" "rows \<le> iheight im" "1 \<le> cols" "cols \<le> iwidth im"
  shows "\<exists>r. recolor_image im rows cols = Inr r \<and> canvas_size r = isize im
     \<and> canvas_fill r = get_average_color im \<and> canvas_fill r \<noteq> None
     \<and> length (blobs r) = nat rows * nat cols"
proof -
  from split_image_pieces [OF assms(1,3), of im] obtain p ps where
    sp: "split_image im rows cols = Inr (p # ps, iwidth im div cols, iheight im div rows)"
    and len: "length (p # ps) = nat rows * nat cols"
    and sz: "\<forall>q\<in>set (p # ps). iwidth q = iwidth im div cols \<and> iheight q = iheight im div rows"
    by blast
  from assms have pw: "0 < iwidth im div cols" and ph: "0 < iheight im div rows"
    by (simp_all add: pos_imp_zdiv_pos_iff)
  from assms have "0 < iwidth im" "0 < iheight im" by simp_all
  then have "positions im \<noteq> []" by (rule positions_nonempty)
  then have total: "get_average_color im \<noteq> None"
    by (simp add: get_average_color_def)
  have "\<forall>q\<in>set (p # ps). get_average_color q \<noteq> None"
  proof
    fix q assume "q \<in> set (p # ps)"
    with sz have "iwidth q = iwidth im div cols" "iheight q = iheight im div rows"
      by blast+
    with pw ph have "0 < iwidth q" "0 < iheight q" by simp_all
    then have "positions q \<noteq> []" by (rule positions_nonempty)
    then show "get_average_color q \<noteq> None" by (simp add: get_average_color_def)
  qed
  then have "\<forall>x\<in>set (enumerate 0 (p # ps)). get_average_color (snd x) \<noteq> None"
    by (auto simp: in_set_enumerate_eq)
  from paint_blobs_ok [OF this] obtain bs where
    bs: "paint_blobs cols (iwidth im div cols) (iheight im div rows)
           (min (iwidth p) (iheight p) div 2) (enumerate 0 (p # ps)) = Inr bs"
    and bl: "length bs = length (enumerate 0 (p # ps))"
    by blast
  from bl len have "length bs = nat rows * nat cols" by simp
  with sp total bs show ?thesis
    by (simp add: recolor_image_def Let_def)
qed

text \<open>
  Claim C5. The output has the size of the input and the canvas is filled with the
  average colour, but the blob of a tile is not a circle of the tile's shorter side
  centred in the tile. For one tile 4 wide and 2 high the diameter is 2 and the radius 1,
  yet the ellipse is drawn in the whole 4 by 2 box and pasted at (1, 0): it is 4 wide,
  and it reaches from x = 1 past the right edge of the tile, where the circle of the
  claim would span x = 1 to 3.
\<close>

theorem recolor_wide_tile:
  "recolor_image wide_image 1 1 =
     Inr \<lparr>canvas_size = (4, 2), canvas_fill = Some [15, 10, 30],
          blobs = [\<lparr>stamp_size = (4, 2), ellipse_box = (0, 0, 4, 2),
                    blob_color = Some [15, 10, 30], pasted_at = (1, 0)\<rparr>]\<rparr>"
  by code_simp

end
